theory Spec2Isabelle
  imports Main
begin

section \<open>Task ordering keys: the position calculator\<close>

text \<open>
  Embedding of \<^verbatim>\<open>frontend/src/utils/positionCalculator.ts\<close> and of the drop handler
  \<^verbatim>\<open>handleDragEnd\<close> of the project's task page.

  A TypeScript \<^verbatim>\<open>number\<close> is a double-precision float. A task position is an
  integer of the signed 32-bit range (the backing column), and on integers of that size
  the additions, subtractions, halvings and \<^verbatim>\<open>Math.floor\<close> of the source are exact.
  The functions are therefore embedded over \<^typ>\<open>int\<close>, with
  \<^verbatim>\<open>Math.floor (x / y)\<close> for positive \<open>y\<close> as \<open>x div y\<close> (which rounds towards minus
  infinity) and \<^verbatim>\<open>number | null\<close> as \<^typ>\<open>int option\<close>. What \<open>calculateNewPosition\<close>
  returns on integers of any size a double can hold, where its sums round, is embedded
  separately as \<open>calculateNewPosition_f64\<close>; the two agree up to \<open>2^52\<close>.
\<close>

definition MIN_POSITION :: int where
  "MIN_POSITION = - 2147483648"

definition MAX_POSITION :: int where
  "MAX_POSITION = 2147483647"

definition DEFAULT_GAP :: int where
  "DEFAULT_GAP = 1000"

text \<open>
  \<^verbatim>\<open>interface TaskPosition { id: string; position: number }\<close>. The field \<^verbatim>\<open>id\<close> is
  named \<open>id_t\<close> here. TypeScript types are structural: every richer task object is a
  \<^verbatim>\<open>TaskPosition\<close> too, which the record scheme \<open>'a TaskPosition_scheme\<close> expresses.
\<close>

record TaskPosition =
  id_t :: string
  position :: int

text \<open>The four branches in the order of the source.\<close>

fun calculateNewPosition :: "int option \<Rightarrow> int option \<Rightarrow> int" where
  "calculateNewPosition None (Some nextPosition) = nextPosition - DEFAULT_GAP"
| "calculateNewPosition (Some prevPosition) None = prevPosition + DEFAULT_GAP"
| "calculateNewPosition (Some prevPosition) (Some nextPosition) =
     (let gap = nextPosition - prevPosition in
      if gap < 2 then prevPosition + 1
      else (prevPosition + nextPosition) div 2)"
| "calculateNewPosition None None = 0"

text \<open>
  Membership of the legal key range, for a position and for an optional neighbour
  position.
\<close>

definition in_range :: "int \<Rightarrow> bool" where
  "in_range p = (MIN_POSITION \<le> p \<and> p \<le> MAX_POSITION)"

definition opt_in_range :: "int option \<Rightarrow> bool" where
  "opt_in_range q = (case q of None \<Rightarrow> True | Some p \<Rightarrow> in_range p)"

section \<open>The calculator on double-precision numbers\<close>

text \<open>
  The integers a double holds are those whose magnitude needs at most 53 significant
  bits (and is below \<open>2^1024\<close>). From \<open>2^53\<close> on, neighbouring doubles are
  \<open>2, 4, 8, \<dots>\<close> apart: \<open>ulp_of m\<close> is that distance at magnitude \<open>m\<close>.
\<close>

fun ulp_of :: "nat \<Rightarrow> nat" where
  "ulp_of m = (if m < 2 ^ 53 then 1 else 2 * ulp_of (m div 2))"

declare ulp_of.simps [simp del]

text \<open>
  Rounding to the nearest such integer, a tie going to the one with the even
  significand (the IEEE 754 default, which JavaScript uses); the sign is kept.
\<close>

definition round_nat :: "nat \<Rightarrow> nat" where
  "round_nat m =
     (let u = ulp_of m; q = m div u; r = m mod u in
      if u < 2 * r \<or> (2 * r = u \<and> odd q) then (q + 1) * u else q * u)"

definition round_int :: "int \<Rightarrow> int" where
  "round_int x = (if x < 0 then - int (round_nat (nat (- x))) else int (round_nat (nat x)))"

text \<open>
  The values the calculator can produce from integer arguments: an integer, or an
  infinity when a sum overflows. \<open>to_f64 x\<close> is the double that an addition or
  subtraction with the exact result \<open>x\<close> delivers: \<open>x\<close> rounded, and an infinity when the
  rounded magnitude reaches \<open>2^1024\<close>. (Minus zero is not told apart from zero.)
\<close>

datatype number = Num int | PosInfinity | NegInfinity

definition to_f64 :: "int \<Rightarrow> number" where
  "to_f64 x =
     (let r = round_int x in
      if 2 ^ 1024 \<le> r then PosInfinity
      else if r \<le> - (2 ^ 1024) then NegInfinity
      else Num r)"

text \<open>The integers that are doubles: the arguments the function can be called with.\<close>

definition is_f64 :: "int \<Rightarrow> bool" where
  "is_f64 x = (to_f64 x = Num x)"

text \<open>The test \<^verbatim>\<open>gap < 2\<close>.\<close>

fun less_than_2 :: "number \<Rightarrow> bool" where
  "less_than_2 (Num g) = (g < 2)"
| "less_than_2 PosInfinity = False"
| "less_than_2 NegInfinity = True"

text \<open>
  \<^verbatim>\<open>Math.floor (s / 2)\<close> for a double \<open>s\<close> with an integer value. Halving is exact: below
  \<open>2^53\<close> the half has at most one binary digit after the point, and from \<open>2^53\<close> on
  \<open>s\<close> is even. So the result is \<open>s div 2\<close>.
\<close>

fun floor_half :: "number \<Rightarrow> number" where
  "floor_half (Num s) = Num (s div 2)"
| "floor_half PosInfinity = PosInfinity"
| "floor_half NegInfinity = NegInfinity"

text \<open>
  \<^verbatim>\<open>calculateNewPosition\<close> on arguments that are \<^verbatim>\<open>null\<close> or integers held by doubles
  (\<open>is_f64\<close>), every arithmetic operation of the source rounding its result.
\<close>

fun calculateNewPosition_f64 :: "int option \<Rightarrow> int option \<Rightarrow> number" where
  "calculateNewPosition_f64 None (Some nextPosition) = to_f64 (nextPosition - DEFAULT_GAP)"
| "calculateNewPosition_f64 (Some prevPosition) None = to_f64 (prevPosition + DEFAULT_GAP)"
| "calculateNewPosition_f64 (Some prevPosition) (Some nextPosition) =
     (let gap = to_f64 (nextPosition - prevPosition) in
      if less_than_2 gap then to_f64 (prevPosition + 1)
      else floor_half (to_f64 (prevPosition + nextPosition)))"
| "calculateNewPosition_f64 None None = Num 0"

section \<open>Column health and rebalancing\<close>

text \<open>
  \<^verbatim>\<open>needsRebalancing\<close>: the \<^verbatim>\<open>for (let i = 1; i < sortedTasks.length; i++)\<close> loop
  as a recursive function of the loop counter. Inside the loop \<open>1 \<le> i < length\<close>, so
  both array reads are in range. \<^verbatim>\<open>[...tasks].sort((a, b) => a.position - b.position)\<close>
  is a stable sort by position (ECMAScript 2019), as \<^const>\<open>sort_key\<close> is.
\<close>

function gap_loop :: "nat \<Rightarrow> 'a TaskPosition_scheme list \<Rightarrow> bool" where
  "gap_loop i sortedTasks =
     (if i < length sortedTasks then
        (if position (sortedTasks ! i) - position (sortedTasks ! (i - 1)) < 10 then True
         else gap_loop (i + 1) sortedTasks)
      else False)"
  by pat_completeness auto
termination
  by (relation "measure (\<lambda>(i, sortedTasks). length sortedTasks - i)") auto

definition needsRebalancing :: "'a TaskPosition_scheme list \<Rightarrow> bool" where
  "needsRebalancing tasks =
     (if length tasks < 2 then False
      else gap_loop 1 (sort_key position tasks))"

text \<open>
  The elements of \<^verbatim>\<open>Array<{ task_id: string; position: number }>\<close>; the second field
  is named \<open>new_position\<close> here, to keep it apart from the field of \<open>TaskPosition\<close>.
\<close>

record PositionUpdate =
  task_id :: string
  new_position :: int

text \<open>\<^verbatim>\<open>array.map((element, index) => ...)\<close>, the index counted from \<open>i\<close>.\<close>

fun map_indexed :: "('a \<Rightarrow> nat \<Rightarrow> 'b) \<Rightarrow> nat \<Rightarrow> 'a list \<Rightarrow> 'b list" where
  "map_indexed f i [] = []"
| "map_indexed f i (x # xs) = f x i # map_indexed f (Suc i) xs"

definition rebalancePositions :: "'a TaskPosition_scheme list \<Rightarrow> PositionUpdate list" where
  "rebalancePositions tasks =
     (if length tasks = 0 then []
      else
        let sortedTasks = sort_key position tasks;
            totalRange = MAX_POSITION - MIN_POSITION;
            gap = totalRange div (int (length sortedTasks) + 1)
        in map_indexed
             (\<lambda>task index.
                \<lparr>task_id = id_t task, new_position = MIN_POSITION + gap * (int index + 1)\<rparr>)
             0 sortedTasks)"

text \<open>
  Feeding a rebalancing result back in: every item gets its new position written to it,
  the items staying in the order of the result.
\<close>

definition feed_back :: "PositionUpdate list \<Rightarrow> TaskPosition list" where
  "feed_back updates = map (\<lambda>u. \<lparr>id_t = task_id u, position = new_position u\<rparr>) updates"

section \<open>Position for a drop index\<close>

text \<open>
  A JavaScript array read \<^verbatim>\<open>xs[i]\<close>: \<^verbatim>\<open>undefined\<close> (here \<open>None\<close>) for an index that is
  negative or not below the length, and no exception.
\<close>

definition at_index :: "'a list \<Rightarrow> int \<Rightarrow> 'a option" where
  "at_index xs i = (if 0 \<le> i \<and> i < int (length xs) then Some (xs ! nat i) else None)"

text \<open>
  The optional parameter \<^verbatim>\<open>draggedTaskId?: string\<close> is a \<^typ>\<open>string option\<close>; the
  source tests its truthiness, and the empty string is falsy.
\<close>

definition filteredTasks ::
  "'a TaskPosition_scheme list \<Rightarrow> string option \<Rightarrow> 'a TaskPosition_scheme list" where
  "filteredTasks tasks draggedTaskId =
     (case draggedTaskId of
        None \<Rightarrow> tasks
      | Some d \<Rightarrow> if d = [] then tasks else filter (\<lambda>t. id_t t \<noteq> d) tasks)"

text \<open>\<^verbatim>\<open>prevTask?.position ?? null\<close> is \<open>map_option position prevTask\<close>.\<close>

definition calculatePositionForIndex ::
  "int \<Rightarrow> 'a TaskPosition_scheme list \<Rightarrow> string option \<Rightarrow> int" where
  "calculatePositionForIndex targetIndex tasks draggedTaskId =
     (let prevTask = at_index (filteredTasks tasks draggedTaskId) (targetIndex - 1);
          nextTask = at_index (filteredTasks tasks draggedTaskId) targetIndex
      in calculateNewPosition (map_option position prevTask) (map_option position nextTask))"

section \<open>The drop handler\<close>

text \<open>
  \<^verbatim>\<open>handleDragEnd\<close> of the project's task page, as the request it sends to
  \<^verbatim>\<open>tasksApi.update\<close>. A task of the board is a \<^verbatim>\<open>TaskPosition\<close> with a status
  (a string; the board's columns are keyed by the five status names).
\<close>

record Task = TaskPosition +
  status :: string

definition TASK_STATUSES :: "string list" where
  "TASK_STATUSES = [''todo'', ''inprogress'', ''inreview'', ''done'', ''cancelled'']"

text \<open>
  The drop event: \<^verbatim>\<open>active.id\<close>, \<^verbatim>\<open>active.data.current\<close> and \<^verbatim>\<open>over\<close> (which may be
  absent) with \<^verbatim>\<open>over.id\<close> and \<^verbatim>\<open>over.data.current\<close>. The data of a draggable is read
  as \<^verbatim>\<open>{ parent?: string }\<close>.
\<close>

record DragData =
  parent :: "string option"

record Over =
  over_id :: string
  over_data :: "DragData option"

record DragEndEvent =
  active_id :: string
  active_data :: "DragData option"
  over :: "Over option"

text \<open>
  The payload of \<^verbatim>\<open>tasksApi.update\<close>: the two fields the handler computes. The others do
  not depend on the drop (\<^verbatim>\<open>title\<close>, \<^verbatim>\<open>description\<close> and \<^verbatim>\<open>parent_workspace_id\<close> are
  copied from the task; \<^verbatim>\<open>priority\<close>, \<^verbatim>\<open>image_ids\<close> and \<^verbatim>\<open>label_ids\<close> are
  \<^verbatim>\<open>null\<close>). \<open>None\<close> is \<^verbatim>\<open>null\<close>: the field is left as it is.
\<close>

record UpdateTask =
  upd_status :: "string option"
  upd_position :: "int option"

text \<open>
  What the handler does: it returns without a request, or it sends one update for the
  dragged task. (After a request that succeeds it may start an automatic review; that
  does not change the request.)
\<close>

datatype Request = NoRequest | Update string UpdateTask

text \<open>\<^verbatim>\<open>Array.prototype.findIndex\<close>: the first index that satisfies the test, or \<open>-1\<close>.\<close>

fun findIndex :: "('a \<Rightarrow> bool) \<Rightarrow> 'a list \<Rightarrow> int" where
  "findIndex P [] = - 1"
| "findIndex P (x # xs) =
     (if P x then 0
      else if findIndex P xs < 0 then - 1
      else findIndex P xs + 1)"

text \<open>\<^verbatim>\<open>data?.parent || fallback\<close>: an absent or empty \<^verbatim>\<open>parent\<close> is falsy.\<close>

definition parent_or :: "DragData option \<Rightarrow> string \<Rightarrow> string" where
  "parent_or dat fallback =
     (case dat of
        None \<Rightarrow> fallback
      | Some d \<Rightarrow>
          (case parent d of
             None \<Rightarrow> fallback
           | Some p \<Rightarrow> if p = [] then fallback else p))"

text \<open>\<^verbatim>\<open>task?.position ?? fallback\<close>.\<close>

definition position_or :: "'a TaskPosition_scheme option \<Rightarrow> int \<Rightarrow> int" where
  "position_or t fallback = (case t of None \<Rightarrow> fallback | Some x \<Rightarrow> position x)"

text \<open>
  The handler's own computation of \<^verbatim>\<open>newPosition\<close> from \<^verbatim>\<open>overIndex\<close> and
  \<^verbatim>\<open>targetTasks\<close> (the \<^verbatim>\<open>if / else if / else\<close> under ``Calculate new position'').
\<close>

definition newPosition :: "int \<Rightarrow> 'a TaskPosition_scheme list \<Rightarrow> int" where
  "newPosition overIndex targetTasks =
     (if overIndex = 0 then position_or (at_index targetTasks 0) 0 - 1000
      else if overIndex = int (length targetTasks) - 1 then
        position_or (at_index targetTasks (int (length targetTasks) - 1)) 0 + 1000
      else
        let prevPos = position_or (at_index targetTasks (overIndex - 1)) 0;
            nextPos = position_or (at_index targetTasks overIndex) (prevPos + 2000)
        in (prevPos + nextPos) div 2)"

text \<open>
  \<^verbatim>\<open>tasksById\<close> is a dictionary from task ids to tasks, \<^verbatim>\<open>kanbanColumns\<close> one from
  status names to the column's tasks in display order (a key that is not there reads
  \<^verbatim>\<open>undefined\<close>, and \<^verbatim>\<open>|| []\<close> makes that the empty list).
\<close>

definition handleDragEnd ::
  "(string \<rightharpoonup> Task) \<Rightarrow> (string \<rightharpoonup> Task list) \<Rightarrow> DragEndEvent \<Rightarrow> Request" where
  "handleDragEnd tasksById kanbanColumns event =
     (case over event of
        None \<Rightarrow> NoRequest
      | Some ov \<Rightarrow>
     (case active_data event of
        None \<Rightarrow> NoRequest
      | Some activeData \<Rightarrow>
     (let draggedTaskId = active_id event;
          overId = over_id ov
      in
     (case tasksById draggedTaskId of
        None \<Rightarrow> NoRequest
      | Some task \<Rightarrow>
     (let overTask = tasksById overId;
          isStatusChange = (overId \<in> set TASK_STATUSES)
      in
        if isStatusChange then
          (let newStatus = overId in
           if status task = newStatus then NoRequest
           else Update draggedTaskId \<lparr>upd_status = Some newStatus, upd_position = None\<rparr>)
        else
          (case overTask of
             None \<Rightarrow> NoRequest
           | Some overTask' \<Rightarrow>
               let sourceStatus = parent_or (Some activeData) (status task);
                   targetStatus = parent_or (over_data ov) (status overTask');
                   targetTasks = (case kanbanColumns targetStatus of
                                    None \<Rightarrow> [] | Some ts \<Rightarrow> ts);
                   overIndex = findIndex (\<lambda>t. id_t t = overId) targetTasks;
                   statusChanged = (sourceStatus \<noteq> targetStatus)
               in Update draggedTaskId
                    \<lparr>upd_status = (if statusChanged then Some targetStatus else None),
                     upd_position = Some (newPosition overIndex targetTasks)\<rparr>))))))"

text \<open>
  Example data: a column of three tasks with wide gaps, one with a tie, and one with
  gaps of 1.
\<close>

definition spaced_column :: "Task list" where
  "spaced_column =
     [\<lparr>id_t = ''A'', position = 1000, status = ''todo''\<rparr>,
      \<lparr>id_t = ''B'', position = 2000, status = ''todo''\<rparr>,
      \<lparr>id_t = ''C'', position = 3000, status = ''todo''\<rparr>]"

definition tied_column :: "Task list" where
  "tied_column =
     [\<lparr>id_t = ''A'', position = 5, status = ''todo''\<rparr>,
      \<lparr>id_t = ''B'', position = 5, status = ''todo''\<rparr>,
      \<lparr>id_t = ''C'', position = 9, status = ''todo''\<rparr>]"

definition dense_column :: "Task list" where
  "dense_column =
     [\<lparr>id_t = ''A'', position = 1, status = ''todo''\<rparr>,
      \<lparr>id_t = ''B'', position = 2, status = ''todo''\<rparr>,
      \<lparr>id_t = ''C'', position = 3, status = ''todo''\<rparr>]"

text \<open>The board that shows one column, and the event ``\<open>a\<close> dropped on \<open>b\<close>'' inside it.\<close>

definition board_of :: "Task list \<Rightarrow> (string \<rightharpoonup> Task list)" where
  "board_of column = [''todo'' \<mapsto> column]"

definition by_id :: "Task list \<Rightarrow> (string \<rightharpoonup> Task)" where
  "by_id column = map_of (map (\<lambda>t. (id_t t, t)) column)"

definition dropped_on :: "string \<Rightarrow> string \<Rightarrow> DragEndEvent" where
  "dropped_on a b =
     \<lparr>active_id = a, active_data = Some \<lparr>parent = Some ''todo''\<rparr>,
      over = Some \<lparr>over_id = b, over_data = Some \<lparr>parent = Some ''todo''\<rparr>\<rparr>\<rparr>"


section \<open>Properties of calculateNewPosition\<close>

text \<open>
  C1 (as stated, refuted): for neighbours inside the legal range the result would always
  be inside the legal range. Inserting at the head before an item that sits at
  \<open>MIN_POSITION\<close> gives \<open>MIN_POSITION - 1000\<close>, which is below the range.
\<close>

theorem calculateNewPosition_range_counterexample:
  "opt_in_range None \<and> opt_in_range (Some MIN_POSITION) \<and>
   \<not> in_range (calculateNewPosition None (Some MIN_POSITION))"
  by (simp add: opt_in_range_def in_range_def MIN_POSITION_def MAX_POSITION_def DEFAULT_GAP_def)

text \<open>
  C1 (amended): for neighbours that are each absent or inside the legal range, the result
  is inside the legal range exactly when the offset has room: a head insertion needs
  \<open>MIN_POSITION + 1000 \<le> next\<close>, a tail insertion needs \<open>prev \<le> MAX_POSITION - 1000\<close>,
  and with both neighbours present \<open>prev\<close> must be below \<open>MAX_POSITION\<close> (which the
  caller's contract \<open>prev < next\<close> gives).
\<close>

theorem calculateNewPosition_range_iff:
  assumes "opt_in_range prev" and "opt_in_range nxt"
  shows "in_range (calculateNewPosition prev nxt) =
     (case (prev, nxt) of
        (None, Some n) \<Rightarrow> MIN_POSITION + DEFAULT_GAP \<le> n
      | (Some p, None) \<Rightarrow> p \<le> MAX_POSITION - DEFAULT_GAP
      | (Some p, Some n) \<Rightarrow> p < MAX_POSITION
      | (None, None) \<Rightarrow> True)"
proof (cases prev)
  case None
  with assms show ?thesis
    by (cases nxt)
       (auto simp: opt_in_range_def in_range_def MIN_POSITION_def MAX_POSITION_def
          DEFAULT_GAP_def)
next
  case (Some p)
  show ?thesis
  proof (cases nxt)
    case None
    with Some assms show ?thesis
      by (auto simp: opt_in_range_def in_range_def MIN_POSITION_def MAX_POSITION_def
            DEFAULT_GAP_def)
  next
    case (Some n)
    with \<open>prev = Some p\<close> assms show ?thesis
      by (auto simp: opt_in_range_def in_range_def MIN_POSITION_def MAX_POSITION_def
            Let_def)
  qed
qed

theorem calculateNewPosition_range_iff_witness:
  "opt_in_range (Some 1000) \<and> opt_in_range (Some 3000) \<and>
   in_range (calculateNewPosition (Some 1000) (Some 3000)) \<and>
   opt_in_range (Some MAX_POSITION) \<and> opt_in_range None \<and>
   \<not> in_range (calculateNewPosition (Some MAX_POSITION) None)"
proof -
  have a: "opt_in_range (Some 1000)" and b: "opt_in_range (Some 3000)"
    and c: "opt_in_range (Some MAX_POSITION)" and d: "opt_in_range None"
    by (simp_all add: opt_in_range_def in_range_def MIN_POSITION_def MAX_POSITION_def)
  show ?thesis
    using a b c d calculateNewPosition_range_iff [OF a b]
      calculateNewPosition_range_iff [OF c d]
    by (simp add: MAX_POSITION_def DEFAULT_GAP_def)
qed

text \<open>
  Up to \<open>2^53\<close> nothing rounds, so on arguments up to \<open>2^52\<close> the double-precision
  calculator returns what the integer embedding returns.
\<close>

lemma round_nat_exact: "m \<le> 2 ^ 53 \<Longrightarrow> round_nat m = m"
proof (cases "m < 2 ^ 53")
  case True
  then have "ulp_of m = 1" by (simp add: ulp_of.simps)
  then show ?thesis by (simp add: round_nat_def)
next
  case False
  assume "m \<le> 2 ^ 53"
  with False have m: "m = 9007199254740992" by simp
  show ?thesis unfolding m by (simp add: round_nat_def ulp_of.simps)
qed

lemma round_int_exact: "\<bar>x\<bar> \<le> 2 ^ 53 \<Longrightarrow> round_int x = x"
proof -
  assume a: "\<bar>x\<bar> \<le> 2 ^ 53"
  show ?thesis
  proof (cases "x < 0")
    case True
    with a have "nat (- x) \<le> 2 ^ 53" by (simp add: nat_le_iff)
    then have "round_nat (nat (- x)) = nat (- x)" by (rule round_nat_exact)
    with True show ?thesis by (simp add: round_int_def)
  next
    case False
    with a have "nat x \<le> 2 ^ 53" by (simp add: nat_le_iff)
    then have "round_nat (nat x) = nat x" by (rule round_nat_exact)
    with False show ?thesis by (simp add: round_int_def)
  qed
qed

lemma to_f64_exact: "\<bar>x\<bar> \<le> 2 ^ 53 \<Longrightarrow> to_f64 x = Num x"
proof -
  assume a: "\<bar>x\<bar> \<le> 2 ^ 53"
  then have r: "round_int x = x" by (rule round_int_exact)
  have "(2::int) ^ 53 < 2 ^ 1024" by simp
  with a have "x < 2 ^ 1024" and "- (2 ^ 1024) < x" by linarith+
  then show ?thesis by (simp add: to_f64_def r)
qed

lemma f64_head_agrees:
  assumes "\<bar>n\<bar> \<le> 2 ^ 52"
  shows "calculateNewPosition_f64 None (Some n) = Num (calculateNewPosition None (Some n))"
proof -
  from assms have "\<bar>n - DEFAULT_GAP\<bar> \<le> 2 ^ 53" by (simp add: DEFAULT_GAP_def)
  then show ?thesis by (simp add: to_f64_exact)
qed

lemma f64_tail_agrees:
  assumes "\<bar>p\<bar> \<le> 2 ^ 52"
  shows "calculateNewPosition_f64 (Some p) None = Num (calculateNewPosition (Some p) None)"
proof -
  from assms have "\<bar>p + DEFAULT_GAP\<bar> \<le> 2 ^ 53" by (simp add: DEFAULT_GAP_def)
  then show ?thesis by (simp add: to_f64_exact)
qed

lemma f64_middle_agrees:
  assumes "\<bar>p\<bar> \<le> 2 ^ 52" and "\<bar>n\<bar> \<le> 2 ^ 52"
  shows "calculateNewPosition_f64 (Some p) (Some n) = Num (calculateNewPosition (Some p) (Some n))"
proof -
  from assms have "\<bar>n - p\<bar> \<le> 2 ^ 53" and "\<bar>p + 1\<bar> \<le> 2 ^ 53" and "\<bar>p + n\<bar> \<le> 2 ^ 53"
    by simp_all
  then show ?thesis by (simp add: to_f64_exact Let_def)
qed

text \<open>
  C2 (as stated, refuted): for all integers \<open>a < b\<close> with \<open>b - a \<ge> 2\<close> the result would
  be \<open>floor ((a + b) / 2)\<close>, strictly above \<open>a\<close>. For \<open>a = 2^53\<close> and \<open>b = 2^53 + 2\<close>,
  both held exactly by a double, the sum \<open>2^54 + 2\<close> rounds to \<open>2^54\<close> and the result is
  \<open>2^53\<close>: it equals \<open>a\<close>, and it is not \<open>floor ((a + b) / 2) = 2^53 + 1\<close>.
\<close>

theorem calculateNewPosition_f64_midpoint_counterexample:
  "is_f64 9007199254740992 \<and> is_f64 9007199254740994
   \<and> (9007199254740992::int) < 9007199254740994
   \<and> (2::int) \<le> 9007199254740994 - 9007199254740992
   \<and> calculateNewPosition_f64 (Some 9007199254740992) (Some 9007199254740994)
        = Num 9007199254740992
   \<and> (9007199254740992 + 9007199254740994) div 2 = (9007199254740993::int)"
  by (simp add: calculateNewPosition_f64.simps to_f64_def round_int_def round_nat_def
      ulp_of.simps is_f64_def Let_def)

text \<open>
  C2 (amended): for all integers \<open>a < b\<close> with \<open>b - a \<ge> 2\<close> and \<open>|a|, |b| \<le> 2^52\<close> (every
  position of the 32-bit range is such) the result is \<open>floor ((a + b) / 2)\<close>, and it lies
  strictly between \<open>a\<close> and \<open>b\<close>; the integer embedding returns the same.
\<close>

theorem calculateNewPosition_f64_midpoint:
  assumes "a < b" and "2 \<le> b - a" and "\<bar>a\<bar> \<le> 2 ^ 52" and "\<bar>b\<bar> \<le> 2 ^ 52"
  shows "calculateNewPosition_f64 (Some a) (Some b) = Num ((a + b) div 2)
     \<and> a < (a + b) div 2 \<and> (a + b) div 2 < b
     \<and> calculateNewPosition (Some a) (Some b) = (a + b) div 2"
proof -
  from assms(1,2) have int_model: "calculateNewPosition (Some a) (Some b) = (a + b) div 2"
    by (simp add: Let_def)
  from assms(1,2) have "a < (a + b) div 2" and "(a + b) div 2 < b" by linarith+
  then show ?thesis
    using f64_middle_agrees [OF assms(3,4)] int_model by simp
qed

theorem calculateNewPosition_f64_midpoint_witness:
  "(2000::int) < 3000 \<and> (2::int) \<le> 3000 - 2000
   \<and> \<bar>2000::int\<bar> \<le> 2 ^ 52 \<and> \<bar>3000::int\<bar> \<le> 2 ^ 52
   \<and> calculateNewPosition_f64 (Some 2000) (Some 3000) = Num 2500
   \<and> calculateNewPosition (Some 2000) (Some 3000) = 2500"
  using calculateNewPosition_f64_midpoint [of 2000 3000] by simp

text \<open>
  C3: for integers \<open>a < b\<close> with \<open>b - a < 2\<close> (so \<open>b = a + 1\<close>) the result is the
  degraded placement \<open>a + 1\<close>, still strictly above \<open>a\<close>.
\<close>

theorem calculateNewPosition_degraded:
  assumes "a < b" and "b - a < 2"
  shows "calculateNewPosition (Some a) (Some b) = a + 1
     \<and> a < calculateNewPosition (Some a) (Some b)"
  using assms by (simp add: Let_def)

theorem calculateNewPosition_degraded_witness:
  "(1000::int) < 1001 \<and> (1001::int) - 1000 < 2
   \<and> calculateNewPosition (Some 1000) (Some 1001) = 1001
   \<and> 1000 < calculateNewPosition (Some 1000) (Some 1001)"
  using calculateNewPosition_degraded [of 1000 1001] by simp

text \<open>
  C4 (as stated, refuted): for every integer \<open>n\<close> the head insertion would give
  \<open>n - 1000\<close> and for every integer \<open>p\<close> the tail insertion \<open>p + 1000\<close>. At \<open>2^60\<close>, which
  a double holds exactly, the doubles below are 128 and those above 256 apart: the head
  insertion gives \<open>2^60 - 1024\<close> and the tail insertion \<open>2^60 + 1024\<close>.
\<close>

theorem calculateNewPosition_f64_boundaries_counterexample:
  "is_f64 1152921504606846976
   \<and> calculateNewPosition_f64 None (Some 1152921504606846976) = Num 1152921504606845952
   \<and> 1152921504606846976 - 1000 = (1152921504606845976::int)
   \<and> calculateNewPosition_f64 (Some 1152921504606846976) None = Num 1152921504606848000
   \<and> 1152921504606846976 + 1000 = (1152921504606847976::int)"
  by (simp add: calculateNewPosition_f64.simps to_f64_def round_int_def round_nat_def
      ulp_of.simps is_f64_def DEFAULT_GAP_def Let_def)

text \<open>
  C4 (amended): with only the next neighbour \<open>n\<close>, \<open>|n| \<le> 2^52\<close>, the result is
  \<open>n - 1000\<close>; with only the previous neighbour \<open>p\<close>, \<open>|p| \<le> 2^52\<close>, it is \<open>p + 1000\<close>;
  with no neighbour it is \<open>0\<close>. The integer embedding returns the same.
\<close>

theorem calculateNewPosition_f64_boundaries:
  assumes "\<bar>n\<bar> \<le> 2 ^ 52" and "\<bar>p\<bar> \<le> 2 ^ 52"
  shows "calculateNewPosition_f64 None (Some n) = Num (n - 1000)
     \<and> calculateNewPosition_f64 (Some p) None = Num (p + 1000)
     \<and> calculateNewPosition_f64 None None = Num 0
     \<and> calculateNewPosition None (Some n) = n - 1000
     \<and> calculateNewPosition (Some p) None = p + 1000
     \<and> calculateNewPosition None None = 0"
  using f64_head_agrees [OF assms(1)] f64_tail_agrees [OF assms(2)]
  by (simp add: DEFAULT_GAP_def)

theorem calculateNewPosition_f64_boundaries_witness:
  "\<bar>5::int\<bar> \<le> 2 ^ 52
   \<and> calculateNewPosition_f64 None (Some 5) = Num (- 995)
   \<and> calculateNewPosition_f64 (Some 5) None = Num 1005
   \<and> calculateNewPosition_f64 None None = Num 0"
  using calculateNewPosition_f64_boundaries [of 5 5] by simp

section \<open>Properties of rebalancePositions\<close>

lemma length_map_indexed: "length (map_indexed f i xs) = length xs"
  by (induction xs arbitrary: i) auto

lemma nth_map_indexed: "k < length xs \<Longrightarrow> map_indexed f i xs ! k = f (xs ! k) (i + k)"
proof (induction xs arbitrary: i k)
  case Nil
  then show ?case by simp
next
  case (Cons x xs)
  then show ?case by (cases k) auto
qed

lemma map_task_id_map_indexed:
  "map task_id (map_indexed (\<lambda>t i. \<lparr>task_id = id_t t, new_position = h i\<rparr>) k xs) = map id_t xs"
  by (induction xs arbitrary: k) auto

lemma rebalance_length: "length (rebalancePositions tasks) = length tasks"
  by (simp add: rebalancePositions_def Let_def length_map_indexed)

lemma rebalance_ids: "map task_id (rebalancePositions tasks) = map id_t (sort_key position tasks)"
  by (simp add: rebalancePositions_def Let_def map_task_id_map_indexed)

lemma rebalance_nth:
  assumes "i < length tasks"
  shows "rebalancePositions tasks ! i =
     \<lparr>task_id = id_t (sort_key position tasks ! i),
      new_position = MIN_POSITION +
        ((MAX_POSITION - MIN_POSITION) div (int (length tasks) + 1)) * (int i + 1)\<rparr>"
proof -
  from assms have ne: "tasks \<noteq> []" by auto
  from assms have "i < length (sort_key position tasks)" by simp
  then show ?thesis
    using ne by (simp add: rebalancePositions_def Let_def nth_map_indexed)
qed

text \<open>The gap is never negative, and \<open>count + 1\<close> gaps fit into the key range.\<close>

lemma gap_nonneg: "0 \<le> (MAX_POSITION - MIN_POSITION) div (int n + 1)"
  by (simp add: MAX_POSITION_def MIN_POSITION_def pos_imp_zdiv_nonneg_iff)

lemma gap_times_count:
  "((MAX_POSITION - MIN_POSITION) div (int n + 1)) * (int n + 1) \<le> MAX_POSITION - MIN_POSITION"
proof -
  let ?R = "MAX_POSITION - MIN_POSITION" and ?m = "int n + 1"
  have "?R = (?R div ?m) * ?m + ?R mod ?m" by (simp only: div_mult_mod_eq)
  moreover have "0 \<le> ?R mod ?m" by simp
  ultimately show ?thesis by linarith
qed

text \<open>The gap is at least 1 as long as \<open>count + 1\<close> does not exceed the width of the range.\<close>

lemma gap_positive:
  assumes "n < 4294967295"
  shows "1 \<le> (MAX_POSITION - MIN_POSITION) div (int n + 1)"
proof -
  have "int n + 1 \<le> MAX_POSITION - MIN_POSITION"
    using assms by (simp add: MAX_POSITION_def MIN_POSITION_def)
  moreover have "0 < int n + 1" by simp
  ultimately have "0 < (MAX_POSITION - MIN_POSITION) div (int n + 1)"
    by (simp only: pos_imp_zdiv_pos_iff)
  then show ?thesis by linarith
qed

lemma rebalance_in_range:
  assumes "i < length tasks"
  shows "in_range (new_position (rebalancePositions tasks ! i))"
proof -
  let ?g = "(MAX_POSITION - MIN_POSITION) div (int (length tasks) + 1)"
  have g0: "0 \<le> ?g" by (rule gap_nonneg)
  have "int i + 1 \<le> int (length tasks) + 1" using assms by simp
  then have "?g * (int i + 1) \<le> ?g * (int (length tasks) + 1)"
    using g0 by (rule mult_left_mono)
  also have "\<dots> \<le> MAX_POSITION - MIN_POSITION" by (rule gap_times_count)
  finally have up: "?g * (int i + 1) \<le> MAX_POSITION - MIN_POSITION" .
  have "0 \<le> ?g * (int i + 1)" using g0 by simp
  with up show ?thesis
    by (simp add: rebalance_nth [OF assms] in_range_def)
qed

lemma rebalance_strict:
  assumes "length tasks < 4294967295"
  shows "sorted_wrt (<) (map new_position (rebalancePositions tasks))"
proof -
  let ?g = "(MAX_POSITION - MIN_POSITION) div (int (length tasks) + 1)"
  have g1: "0 < ?g" using gap_positive [OF assms] by linarith
  have "new_position (rebalancePositions tasks ! i) < new_position (rebalancePositions tasks ! j)"
    if "i < j" and "j < length tasks" for i j
  proof -
    from that have i: "i < length tasks" by simp
    have "int i + 1 < int j + 1" using that by simp
    then have "?g * (int i + 1) < ?g * (int j + 1)"
      using g1 by (rule mult_strict_left_mono)
    then show ?thesis
      by (simp add: rebalance_nth [OF i] rebalance_nth [OF that(2)])
  qed
  then show ?thesis
    by (simp add: sorted_wrt_iff_nth_less rebalance_length)
qed

lemma rebalance_weak: "sorted (map new_position (rebalancePositions tasks))"
proof -
  let ?g = "(MAX_POSITION - MIN_POSITION) div (int (length tasks) + 1)"
  have g0: "0 \<le> ?g" by (rule gap_nonneg)
  have "new_position (rebalancePositions tasks ! i) \<le> new_position (rebalancePositions tasks ! j)"
    if "i < j" and "j < length tasks" for i j
  proof -
    from that have i: "i < length tasks" by simp
    have "int i + 1 \<le> int j + 1" using that by simp
    then have "?g * (int i + 1) \<le> ?g * (int j + 1)"
      using g0 by (rule mult_left_mono)
    then show ?thesis
      by (simp add: rebalance_nth [OF i] rebalance_nth [OF that(2)])
  qed
  then show ?thesis
    by (simp add: sorted_iff_nth_mono_less rebalance_length)
qed

text \<open>
  C5 (as stated, refuted): the output positions would be strictly increasing for every
  input list. For a list of \<open>2^32 - 1 = 4294967295\<close> items (the longest array there is)
  the gap is \<open>floor (4294967295 / 4294967296) = 0\<close>, every item is assigned
  \<open>MIN_POSITION\<close>, and the output is not strictly increasing.
\<close>

theorem rebalancePositions_not_strict:
  "\<not> sorted_wrt (<) (map new_position
       (rebalancePositions (replicate 4294967295 \<lparr>id_t = ''a'', position = 0\<rparr>)))"
proof
  define ts where "ts = replicate 4294967295 \<lparr>id_t = ''a'', position = 0\<rparr>"
  have len: "length ts = 4294967295" by (simp add: ts_def)
  assume "sorted_wrt (<) (map new_position
       (rebalancePositions (replicate 4294967295 \<lparr>id_t = ''a'', position = 0\<rparr>)))"
  then have srt: "sorted_wrt (<) (map new_position (rebalancePositions ts))"
    by (simp only: ts_def)
  have l0: "0 < length ts" and l1: "Suc 0 < length ts" by (simp_all add: len)
  have "map new_position (rebalancePositions ts) ! 0 < map new_position (rebalancePositions ts) ! 1"
    using srt by (rule sorted_wrt_nth_less) (simp_all add: rebalance_length len)
  then have "new_position (rebalancePositions ts ! 0) < new_position (rebalancePositions ts ! 1)"
    by (simp add: rebalance_length len)
  then show False
    by (simp add: rebalance_nth [OF l0] rebalance_nth [OF l1] len MAX_POSITION_def MIN_POSITION_def)
qed

text \<open>
  C5 (amended): for every input list, \<open>rebalancePositions\<close> returns a list of the same
  length whose \<open>i\<close>-th entry carries the id of the \<open>i\<close>-th item in ascending order of
  current position and the position
  \<open>MIN_POSITION + floor ((MAX_POSITION - MIN_POSITION) / (count + 1)) * (i + 1)\<close>; all
  output positions lie within \<open>[MIN_POSITION, MAX_POSITION]\<close>; the empty input gives the
  empty output; and for an input of fewer than \<open>2^32 - 1\<close> items the output positions are
  strictly increasing.
\<close>

theorem rebalancePositions_spec:
  "length (rebalancePositions tasks) = length tasks
   \<and> (\<forall>i < length tasks.
        rebalancePositions tasks ! i =
          \<lparr>task_id = id_t (sort_key position tasks ! i),
           new_position = MIN_POSITION +
             ((MAX_POSITION - MIN_POSITION) div (int (length tasks) + 1)) * (int i + 1)\<rparr>)
   \<and> (length tasks < 4294967295 \<longrightarrow>
        sorted_wrt (<) (map new_position (rebalancePositions tasks)))
   \<and> (\<forall>i < length tasks. in_range (new_position (rebalancePositions tasks ! i)))
   \<and> rebalancePositions ([] :: 'a TaskPosition_scheme list) = []"
proof -
  have "rebalancePositions ([] :: 'a TaskPosition_scheme list) = []"
    by (simp add: rebalancePositions_def)
  then show ?thesis
    using rebalance_length [of tasks] rebalance_nth [of _ tasks] rebalance_strict [of tasks]
      rebalance_in_range [of _ tasks]
    by blast
qed

theorem rebalancePositions_spec_witness:
  "length [\<lparr>id_t = ''B'', position = 5\<rparr>, \<lparr>id_t = ''A'', position = 1\<rparr>] < 4294967295
   \<and> rebalancePositions [\<lparr>id_t = ''B'', position = 5\<rparr>, \<lparr>id_t = ''A'', position = 1\<rparr>] ! 0
       = \<lparr>task_id = ''A'', new_position = - 715827883\<rparr>
   \<and> rebalancePositions [\<lparr>id_t = ''B'', position = 5\<rparr>, \<lparr>id_t = ''A'', position = 1\<rparr>] ! 1
       = \<lparr>task_id = ''B'', new_position = 715827882\<rparr>
   \<and> sorted_wrt (<) (map new_position
        (rebalancePositions [\<lparr>id_t = ''B'', position = 5\<rparr>, \<lparr>id_t = ''A'', position = 1\<rparr>]))
   \<and> in_range (new_position
        (rebalancePositions [\<lparr>id_t = ''B'', position = 5\<rparr>, \<lparr>id_t = ''A'', position = 1\<rparr>] ! 1))"
proof -
  let ?ts = "[\<lparr>id_t = ''B'', position = 5\<rparr>, \<lparr>id_t = ''A'', position = 1\<rparr>]"
  note t = rebalancePositions_spec [of ?ts]
  note nth = t [THEN conjunct2, THEN conjunct1, rule_format]
  note strict = t [THEN conjunct2, THEN conjunct2, THEN conjunct1, rule_format]
  note bounded = t [THEN conjunct2, THEN conjunct2, THEN conjunct2, THEN conjunct1, rule_format]
  have small: "length ?ts < 4294967295" by simp
  have "rebalancePositions ?ts ! 0 = \<lparr>task_id = ''A'', new_position = - 715827883\<rparr>"
    using nth [of 0] by (simp add: MAX_POSITION_def MIN_POSITION_def)
  moreover have "rebalancePositions ?ts ! 1 = \<lparr>task_id = ''B'', new_position = 715827882\<rparr>"
    using nth [of 1] by (simp add: MAX_POSITION_def MIN_POSITION_def)
  moreover have "in_range (new_position (rebalancePositions ?ts ! 1))"
    using bounded [of 1] by simp
  ultimately show ?thesis
    using small strict [OF small] by simp
qed

text \<open>
  C7: rebalancing is idempotent with respect to order. Rebalance, write the new positions
  back to the items in the order of the result, rebalance again: the ids come out in the
  same order as after the first rebalancing.
\<close>

theorem rebalance_twice_same_order:
  "map task_id (rebalancePositions (feed_back (rebalancePositions tasks)))
     = map task_id (rebalancePositions tasks)"
proof -
  let ?r = "rebalancePositions tasks"
  have "map position (feed_back ?r) = map new_position ?r"
    by (simp add: feed_back_def)
  then have "sorted (map position (feed_back ?r))"
    by (simp only: rebalance_weak)
  then have "sort_key position (feed_back ?r) = feed_back ?r"
    by (rule sort_key_id_if_sorted)
  then have "map task_id (rebalancePositions (feed_back ?r)) = map id_t (feed_back ?r)"
    by (simp only: rebalance_ids)
  also have "\<dots> = map task_id ?r"
    by (simp add: feed_back_def)
  finally show ?thesis .
qed

theorem rebalance_twice_witness:
  "map task_id (rebalancePositions (feed_back (rebalancePositions
       [\<lparr>id_t = ''B'', position = 5\<rparr>, \<lparr>id_t = ''A'', position = 1\<rparr>]))) = [''A'', ''B'']"
  using rebalance_twice_same_order [of "[\<lparr>id_t = ''B'', position = 5\<rparr>, \<lparr>id_t = ''A'', position = 1\<rparr>]"]
  by (simp add: rebalance_ids)

section \<open>Properties of needsRebalancing\<close>

text \<open>The loop started at \<open>i\<close> finds a small gap exactly when one exists at or after \<open>i\<close>.\<close>

lemma gap_loop_iff:
  "gap_loop i s =
     (\<exists>j. i \<le> j \<and> j < length s \<and> position (s ! j) - position (s ! (j - 1)) < 10)"
proof (induction i s rule: gap_loop.induct)
  case (1 i s)
  show ?case
  proof (cases "i < length s")
    case False
    then show ?thesis by (subst gap_loop.simps) auto
  next
    case True
    show ?thesis
    proof (cases "position (s ! i) - position (s ! (i - 1)) < 10")
      case small: True
      with True show ?thesis by (subst gap_loop.simps) auto
    next
      case big: False
      have "gap_loop i s = gap_loop (i + 1) s"
        using True big by (subst gap_loop.simps) simp
      also have "\<dots> =
         (\<exists>j. i + 1 \<le> j \<and> j < length s \<and> position (s ! j) - position (s ! (j - 1)) < 10)"
        using 1 True big by simp
      also have "\<dots> =
         (\<exists>j. i \<le> j \<and> j < length s \<and> position (s ! j) - position (s ! (j - 1)) < 10)"
        using big by (metis Suc_eq_plus1 Suc_leI le_neq_implies_less Suc_leD)
      finally show ?thesis .
    qed
  qed
qed

lemma adjacent_shift:
  "(\<exists>j. 1 \<le> j \<and> j < n \<and> P j (j - 1)) = (\<exists>i. Suc i < n \<and> P (Suc i) i)" for n :: nat
proof
  assume "\<exists>j. 1 \<le> j \<and> j < n \<and> P j (j - 1)"
  then obtain j where j: "1 \<le> j" "j < n" "P j (j - 1)" by blast
  then have "Suc (j - 1) < n \<and> P (Suc (j - 1)) (j - 1)" by simp
  then show "\<exists>i. Suc i < n \<and> P (Suc i) i" by blast
next
  assume "\<exists>i. Suc i < n \<and> P (Suc i) i"
  then obtain i where "Suc i < n" "P (Suc i) i" by blast
  then have "1 \<le> Suc i \<and> Suc i < n \<and> P (Suc i) (Suc i - 1)" by simp
  then show "\<exists>j. 1 \<le> j \<and> j < n \<and> P j (j - 1)" by blast
qed

lemma needsRebalancing_sorted_tasks:
  "needsRebalancing tasks =
     (\<exists>i. Suc i < length tasks \<and>
          position (sort_key position tasks ! Suc i) - position (sort_key position tasks ! i) < 10)"
proof -
  let ?s = "sort_key position tasks"
  have len: "length ?s = length tasks" by simp
  have "gap_loop 1 ?s =
     (\<exists>i. Suc i < length tasks \<and> position (?s ! Suc i) - position (?s ! i) < 10)"
    unfolding gap_loop_iff len
    by (rule adjacent_shift [where P = "\<lambda>a b. position (?s ! a) - position (?s ! b) < 10"])
  moreover have "length tasks < 2 \<Longrightarrow> \<not> Suc i < length tasks" for i
    by linarith
  ultimately show ?thesis
    unfolding needsRebalancing_def by (cases "length tasks < 2") simp_all
qed

text \<open>
  The positions of the tasks sorted by position are the sorted positions, whichever
  way ties between tasks are broken.
\<close>

lemma map_insort_key: "map f (insort_key f x xs) = insort (f x) (map f xs)"
  by (induction xs) auto

lemma map_sort_key: "map f (sort_key f xs) = sort (map f xs)"
  by (induction xs) (auto simp: map_insort_key)

lemma sorted_positions_nth:
  "i < length tasks \<Longrightarrow> position (sort_key position tasks ! i) = sort (map position tasks) ! i"
proof -
  assume "i < length tasks"
  then have "i < length (sort_key position tasks)" by simp
  then have "map position (sort_key position tasks) ! i = position (sort_key position tasks ! i)"
    by (rule nth_map)
  then show ?thesis by (simp only: map_sort_key)
qed

text \<open>
  C6: \<open>needsRebalancing\<close> returns true if and only if, in the ascending sequence of the
  tasks' positions, some adjacent pair has a gap strictly less than 10; in particular it
  returns false for fewer than two tasks.
\<close>

theorem needsRebalancing_sorted_gaps:
  "needsRebalancing tasks =
     (\<exists>i. Suc i < length tasks \<and>
          sort (map position tasks) ! Suc i - sort (map position tasks) ! i < 10)
   \<and> (length tasks < 2 \<longrightarrow> \<not> needsRebalancing tasks)"
proof -
  have "(\<exists>i. Suc i < length tasks \<and>
          position (sort_key position tasks ! Suc i) - position (sort_key position tasks ! i) < 10)
     = (\<exists>i. Suc i < length tasks \<and>
          sort (map position tasks) ! Suc i - sort (map position tasks) ! i < 10)"
    using sorted_positions_nth [of _ tasks] by (metis Suc_lessD)
  moreover have "length tasks < 2 \<Longrightarrow> \<not> Suc i < length tasks" for i
    by linarith
  ultimately show ?thesis
    using needsRebalancing_sorted_tasks [of tasks] by simp
qed

theorem needsRebalancing_witness:
  "length [\<lparr>id_t = ''A'', position = 7\<rparr>] < 2
   \<and> \<not> needsRebalancing [\<lparr>id_t = ''A'', position = 7\<rparr>]
   \<and> needsRebalancing [\<lparr>id_t = ''B'', position = 1005\<rparr>, \<lparr>id_t = ''C'', position = 3000\<rparr>,
        \<lparr>id_t = ''A'', position = 1000\<rparr>]
   \<and> \<not> needsRebalancing [\<lparr>id_t = ''B'', position = 1010\<rparr>, \<lparr>id_t = ''A'', position = 1000\<rparr>]"
proof -
  have "sort [1005, 3000, (1000::int)] ! Suc 0 - sort [1005, 3000, (1000::int)] ! 0 < 10"
    by simp
  then show ?thesis
    using needsRebalancing_sorted_gaps [of "[\<lparr>id_t = ''A'', position = 7\<rparr>]"]
      needsRebalancing_sorted_gaps [of "[\<lparr>id_t = ''B'', position = 1005\<rparr>,
        \<lparr>id_t = ''C'', position = 3000\<rparr>, \<lparr>id_t = ''A'', position = 1000\<rparr>]"]
      needsRebalancing_sorted_gaps [of "[\<lparr>id_t = ''B'', position = 1010\<rparr>,
        \<lparr>id_t = ''A'', position = 1000\<rparr>]"]
    by auto
qed

section \<open>Properties of calculatePositionForIndex\<close>




section \<open>The drop handler against the calculator\<close>

text \<open>
  C8 (the handler does otherwise): dropping a task on the slot it already occupies in its
  own column should request nothing. Dropped on itself, task \<open>B\<close> of the column
  \<open>A:1000, B:2000, C:3000\<close> is sent a new position 1500; in the column
  \<open>A:5, B:5, C:9\<close> the handler computes \<open>B\<close>'s own position 5 and still sends the
  update. Only a drop on the column itself is checked against the task's status and
  dropped without a request.
\<close>

theorem handleDragEnd_own_slot:
  "handleDragEnd (by_id spaced_column) (board_of spaced_column) (dropped_on ''B'' ''B'')
     = Update ''B'' \<lparr>upd_status = None, upd_position = Some 1500\<rparr>
   \<and> handleDragEnd (by_id tied_column) (board_of tied_column) (dropped_on ''B'' ''B'')
     = Update ''B'' \<lparr>upd_status = None, upd_position = Some 5\<rparr>
   \<and> handleDragEnd (by_id spaced_column) (board_of spaced_column) (dropped_on ''B'' ''todo'')
     = NoRequest"
  by (simp add: handleDragEnd_def by_id_def board_of_def dropped_on_def spaced_column_def
      tied_column_def TASK_STATUSES_def parent_or_def newPosition_def position_or_def
      at_index_def Let_def)

text \<open>
  C9 (the handler does otherwise): the position the handler assigns should be the one
  \<open>calculatePositionForIndex\<close> gives for the drop index with the dragged task excluded.
  Task \<open>A\<close> of \<open>A:1000, B:2000, C:3000\<close> dropped on \<open>B\<close> (index 1) is sent 1500 and stays
  first, where the calculator gives 2500; a task \<open>D\<close> from another column dropped on the
  last task \<open>C\<close> (index 2) gets 4000 where the calculator gives 2500; and dropped on
  \<open>B\<close> of \<open>A:1, B:2, C:3\<close> it gets \<open>A\<close>'s position 1 where the calculator gives 2.
\<close>

theorem handleDragEnd_not_calculator:
  "handleDragEnd (by_id spaced_column) (board_of spaced_column) (dropped_on ''A'' ''B'')
     = Update ''A'' \<lparr>upd_status = None, upd_position = Some 1500\<rparr>
   \<and> findIndex (\<lambda>t. id_t t = ''B'') spaced_column = 1
   \<and> calculatePositionForIndex 1 spaced_column (Some ''A'') = 2500
   \<and> newPosition 2 spaced_column = 4000
   \<and> calculatePositionForIndex 2 spaced_column (Some ''D'') = 2500
   \<and> newPosition 1 dense_column = 1
   \<and> calculatePositionForIndex 1 dense_column (Some ''D'') = 2"
  by (simp add: handleDragEnd_def by_id_def board_of_def dropped_on_def spaced_column_def
      dense_column_def TASK_STATUSES_def parent_or_def newPosition_def position_or_def
      at_index_def Let_def calculatePositionForIndex_def filteredTasks_def)

end
